theory Spec2Isabelle
  imports Main "HOL-Library.Word"
begin

section \<open>The wrapped container: \<open>std::vector<T>\<close>\<close>

text \<open>
  \<open>Vec<T>\<close> (src/vec/vec.h) holds one private member, \<open>std::vector<T> self\<close>, and
  forwards to it. The standard container is not part of the repository; the operations
  that \<open>Vec\<close> calls are modelled here after their contract in the C++ standard. A vector
  is the list of its live elements together with the number of slots of its allocation.
  \<open>Size\<close> is \<open>std::size_t\<close>; it is modelled as \<open>nat\<close>: the code only compares sizes and
  indices, and the one loop that counts keeps its index between 1 and the size.
  A failed allocation (\<open>std::bad_alloc\<close>, \<open>std::length_error\<close>) is outside the model.
\<close>

record 'a vector =
  elems :: "'a list"
  allocated :: nat

text \<open>
  The failures a call can end in. \<open>NoSuchElement\<close> and \<open>IndexOutOfBounds\<close> are the two
  exception classes of namespace \<open>error\<close>. Each stores the \<open>const char*\<close> its
  constructor receives and copies nothing. \<open>NoSuchElement\<close> is only thrown with a string
  literal, so it carries that text. \<open>IndexOutOfBounds\<close> is only thrown with
  \<open>message.c_str()\<close> of a \<open>std::string\<close> local to the block that throws: the string is
  destroyed while the exception leaves the block, the stored pointer dangles, and the
  exception that arrives delivers its class and no text. \<open>std_out_of_range\<close> is what
  \<open>std::vector::at\<close> throws, and \<open>undefined_behaviour\<close> marks a call of the standard
  container outside its precondition (\<open>back\<close> on an empty vector, \<open>operator[]\<close> past
  the end).
\<close>

datatype error =
    NoSuchElement string
  | IndexOutOfBounds
  | std_out_of_range
  | undefined_behaviour

definition vector_default :: "'a vector" where
  "vector_default = \<lparr>elems = [], allocated = 0\<rparr>"

text \<open>
  \<open>vector(n, val)\<close>, \<open>vector(initializer_list)\<close> and the copy constructor allocate what
  they fill.
\<close>

definition vector_fill :: "nat \<Rightarrow> 'a \<Rightarrow> 'a vector" where
  "vector_fill n val = \<lparr>elems = replicate n val, allocated = n\<rparr>"

definition vector_list :: "'a list \<Rightarrow> 'a vector" where
  "vector_list list = \<lparr>elems = list, allocated = length list\<rparr>"

definition vector_copy :: "'a vector \<Rightarrow> 'a vector" where
  "vector_copy s = \<lparr>elems = elems s, allocated = length (elems s)\<rparr>"

text \<open>
  \<open>emplace_back\<close> appends in place while a slot is free; a full vector first moves to
  an allocation of twice the slots (one slot at least), the growth of libc++, the library
  whose iterator traits the concepts of this repository read.
\<close>

definition vector_emplace_back :: "'a vector \<Rightarrow> 'a \<Rightarrow> 'a vector" where
  "vector_emplace_back s x =
     \<lparr>elems = elems s @ [x],
      allocated = (if length (elems s) < allocated s then allocated s
                   else max (2 * allocated s) (length (elems s) + 1))\<rparr>"

text \<open>
  \<open>vector(first, last)\<close> builds each element from the element the source iterator
  refers to, with the constructor of \<open>T\<close> that takes it (\<open>construct\<close>). Over a multi-pass
  (forward) iterator it measures the range and allocates what it fills; over a
  single-pass iterator it cannot, and appends the elements one by one.
\<close>

definition vector_range :: "bool \<Rightarrow> ('b \<Rightarrow> 'a) \<Rightarrow> 'b list \<Rightarrow> 'a vector" where
  "vector_range multi_pass construct src =
     (if multi_pass then \<lparr>elems = map construct src, allocated = length src\<rparr>
      else fold (\<lambda>x s. vector_emplace_back s (construct x)) src vector_default)"

definition vector_size :: "'a vector \<Rightarrow> nat" where
  "vector_size s = length (elems s)"

definition vector_empty :: "'a vector \<Rightarrow> bool" where
  "vector_empty s = (case elems s of [] \<Rightarrow> True | _ # _ \<Rightarrow> False)"

definition vector_capacity :: "'a vector \<Rightarrow> nat" where
  "vector_capacity s = allocated s"

definition vector_at :: "'a vector \<Rightarrow> nat \<Rightarrow> error + 'a" where
  "vector_at s i = (if i < vector_size s then Inr (elems s ! i) else Inl std_out_of_range)"

definition vector_index :: "'a vector \<Rightarrow> nat \<Rightarrow> error + 'a" where
  "vector_index s i = (if i < vector_size s then Inr (elems s ! i) else Inl undefined_behaviour)"

definition vector_index_assign :: "'a vector \<Rightarrow> nat \<Rightarrow> 'a \<Rightarrow> error + 'a vector" where
  "vector_index_assign s i x =
     (if i < vector_size s then Inr (s\<lparr>elems := (elems s)[i := x]\<rparr>) else Inl undefined_behaviour)"

definition vector_front :: "'a vector \<Rightarrow> error + 'a" where
  "vector_front s = (case elems s of [] \<Rightarrow> Inl undefined_behaviour | x # _ \<Rightarrow> Inr x)"

definition vector_back :: "'a vector \<Rightarrow> error + 'a" where
  "vector_back s = (case elems s of [] \<Rightarrow> Inl undefined_behaviour | _ # _ \<Rightarrow> Inr (last (elems s)))"

definition vector_pop_back :: "'a vector \<Rightarrow> error + 'a vector" where
  "vector_pop_back s =
     (case elems s of [] \<Rightarrow> Inl undefined_behaviour | _ # _ \<Rightarrow> Inr (s\<lparr>elems := butlast (elems s)\<rparr>))"

text \<open>\<open>clear\<close> destroys the elements and keeps the allocation.\<close>

definition vector_clear :: "'a vector \<Rightarrow> 'a vector" where
  "vector_clear s = s\<lparr>elems := []\<rparr>"

section \<open>\<open>std::to_string\<close> on a size\<close>

text \<open>The decimal digits of a number, without a sign or leading zeros.\<close>

fun to_string :: "nat \<Rightarrow> string" where
  "to_string n =
     (if n < 10 then [''0123456789'' ! n]
      else to_string (n div 10) @ [''0123456789'' ! (n mod 10)])"

declare to_string.simps [simp del]

section \<open>The class \<open>Vec<T>\<close>\<close>

record 'a Vec =
  self :: "'a vector"

text \<open>
  A const member function is a function of the container. A non-const member function
  takes the container and returns what the call ends in, a value or the exception
  thrown, together with the container after the call. Where a const and a non-const
  overload have the same body (\<open>at\<close>, \<open>peek_back\<close>, \<open>peek_front\<close>) one definition
  stands for both. A returned reference is modelled by the element it refers to.
  \<open>at\<close> and \<open>operator[]\<close> build their \<open>message\<close> and throw a pointer into it: the text
  is lost with the string (see \<open>error\<close>).
  \<open>from_list\<close> is \<open>from(std::initializer_list<T>)\<close>, which returns \<open>Vec(list)\<close>; \<open>of_n\<close>
  is \<open>of(n, default_val)\<close>, the default argument \<open>T()\<close> being the caller's to supply.
\<close>

text \<open>
  \<open>Vec_default\<close> is the constructor \<open>Vec()\<close> and \<open>Vec_copy\<close> the copy constructor, which
  the class leaves to the compiler: it copies the member \<open>self\<close>.
\<close>

definition Vec_default :: "'a Vec" where
  "Vec_default = \<lparr>self = vector_default\<rparr>"

definition Vec_copy :: "'a Vec \<Rightarrow> 'a Vec" where
  "Vec_copy other = \<lparr>self = vector_copy (self other)\<rparr>"

definition from_list :: "'a list \<Rightarrow> 'a Vec" where
  "from_list list = \<lparr>self = vector_list list\<rparr>"

definition of_n :: "nat \<Rightarrow> 'a \<Rightarrow> 'a Vec" where
  "of_n n default_val = (let result = Vec_default in result\<lparr>self := vector_fill n default_val\<rparr>)"

definition size_Vec :: "'a Vec \<Rightarrow> nat" where
  "size_Vec v = vector_size (self v)"

definition cap :: "'a Vec \<Rightarrow> nat" where
  "cap v = vector_capacity (self v)"

definition is_empty :: "'a Vec \<Rightarrow> bool" where
  "is_empty v = vector_empty (self v)"

definition at :: "'a Vec \<Rightarrow> nat \<Rightarrow> (error + 'a) \<times> 'a Vec" where
  "at v i =
     (if i \<ge> vector_size (self v)
      then (let message = ''invalid index for vector of size '' @ to_string (vector_size (self v)) @ ''.''
            in (Inl IndexOutOfBounds, v))
      else (vector_at (self v) i, v))"

definition operator_index :: "'a Vec \<Rightarrow> nat \<Rightarrow> (error + 'a) \<times> 'a Vec" where
  "operator_index v i =
     (if i \<ge> vector_size (self v)
      then (let message = ''index too large for vector of size '' @ to_string (vector_size (self v)) @ ''.''
            in (Inl IndexOutOfBounds, v))
      else (vector_at (self v) i, v))"

definition peek_back :: "'a Vec \<Rightarrow> (error + 'a) \<times> 'a Vec" where
  "peek_back v =
     (if vector_empty (self v) then (Inl (NoSuchElement ''vector is empty.''), v)
      else (vector_back (self v), v))"

definition peek_front :: "'a Vec \<Rightarrow> (error + 'a) \<times> 'a Vec" where
  "peek_front v =
     (if vector_empty (self v) then (Inl (NoSuchElement ''vector is empty.''), v)
      else (vector_front (self v), v))"

text \<open>
  \<open>pop_back\<close> returns \<open>std::optional<T>\<close>: \<open>None\<close> is \<open>std::nullopt\<close>. An exception
  leaving \<open>peek_back\<close> or the wrapped \<open>pop_back\<close> would leave the call.
\<close>

definition pop_back :: "'a Vec \<Rightarrow> (error + 'a option) \<times> 'a Vec" where
  "pop_back v =
     (if is_empty v then (Inr None, v)
      else (case peek_back v of
              (Inl e, v1) \<Rightarrow> (Inl e, v1)
            | (Inr result, v1) \<Rightarrow>
                (case vector_pop_back (self v1) of
                   Inl e \<Rightarrow> (Inl e, v1)
                 | Inr s \<Rightarrow> (Inr (Some result), v1\<lparr>self := s\<rparr>))))"

definition clear :: "'a Vec \<Rightarrow> (error + unit) \<times> 'a Vec" where
  "clear v = (Inr (), v\<lparr>self := vector_clear (self v)\<rparr>)"

section \<open>The iterator concepts\<close>

text \<open>
  The concepts of namespace \<open>vector\<close> are compile-time predicates of an iterator type
  and the element type \<open>T\<close>. Such a pair is described by the three type traits the
  concepts read: \<open>std::__is_cpp17_input_iterator<Iterator>::value\<close>,
  \<open>std::__is_cpp17_forward_iterator<Iterator>::value\<close> and
  \<open>std::is_constructible<T, std::iterator_traits<Iterator>::reference>::value\<close>.
\<close>

record iterator_type =
  is_cpp17_input_iterator :: bool
  is_cpp17_forward_iterator :: bool
  is_constructible :: bool

definition IsInputIterator :: "iterator_type \<Rightarrow> bool" where
  "IsInputIterator it =
     (is_cpp17_input_iterator it \<and> \<not> is_cpp17_forward_iterator it \<and> is_constructible it)"

definition IsForwardIterator :: "iterator_type \<Rightarrow> bool" where
  "IsForwardIterator it = (is_cpp17_forward_iterator it \<and> is_constructible it)"

definition IsValidIterator :: "iterator_type \<Rightarrow> bool" where
  "IsValidIterator it = (IsForwardIterator it \<or> IsInputIterator it)"

text \<open>
  \<open>from(begin, end)\<close> is constrained by \<open>IsValidIterator<SomeIterator, T>\<close>: for an
  iterator type that fails the concept the overload does not exist, which is the
  result \<open>None\<close>. The range \<open>[begin, end)\<close> is the list of the elements it runs over.
\<close>

definition from_range :: "iterator_type \<Rightarrow> ('b \<Rightarrow> 'a) \<Rightarrow> 'b list \<Rightarrow> 'a Vec option" where
  "from_range it construct src =
     (if IsValidIterator it
      then Some (let result = Vec_default
                 in result\<lparr>self := vector_range (is_cpp17_forward_iterator it) construct src\<rparr>)
      else None)"

section \<open>Patterns and \<open>with\<close>\<close>


definition Decr :: "int \<Rightarrow> 'a::ring_1 \<Rightarrow> 'a" where
  "Decr by val = val - of_int by"

definition Mult :: "int \<Rightarrow> 'a::ring_1 \<Rightarrow> 'a" where
  "Mult by val = val * of_int by"

text \<open>
  The loop of \<open>with\<close>, from the index \<open>i\<close> on. It reads and writes through the
  unchecked \<open>operator[]\<close> of the wrapped vector.
\<close>

function with_loop :: "('a \<Rightarrow> 'a) \<Rightarrow> nat \<Rightarrow> 'a Vec \<Rightarrow> (error + unit) \<times> 'a Vec" where
  "with_loop pat i v =
     (if i < vector_size (self v) then
        (case vector_index (self v) (i - 1) of
           Inl e \<Rightarrow> (Inl e, v)
         | Inr prev \<Rightarrow>
             (case vector_index_assign (self v) i (pat prev) of
                Inl e \<Rightarrow> (Inl e, v)
              | Inr s \<Rightarrow> with_loop pat (i + 1) (v\<lparr>self := s\<rparr>)))
      else (Inr (), v))"
  by pat_completeness auto
termination
  by (relation "measure (\<lambda>(pat, i, v). vector_size (self v) - i)")
    (auto simp: vector_index_assign_def vector_size_def split: if_splits)

declare with_loop.simps [simp del]

text \<open>
  \<open>with\<close> is a member template over the pattern's type \<open>U\<close>, constrained by
  \<open>std::numeric_limits<U>::is_integer\<close> (\<open>is_integer\<close>); it is modelled where \<open>U\<close> is
  the element type. Without the constraint the member does not exist: \<open>None\<close>. Its
  return type is \<open>Vec<T>\<close>, so \<open>return *this\<close> returns a copy of the container after the
  loop, an object of its own with its own allocation.
\<close>

definition with_pattern ::
  "bool \<Rightarrow> ('a \<Rightarrow> 'a) \<Rightarrow> 'a Vec \<Rightarrow> ((error + 'a Vec) \<times> 'a Vec) option" where
  "with_pattern is_integer pat v =
     (if is_integer then
        Some (case with_loop pat 1 v of
                (Inl e, v1) \<Rightarrow> (Inl e, v1)
              | (Inr _, v1) \<Rightarrow> (Inr (Vec_copy v1), v1))
      else None)"

section \<open>Writing a container to a stream\<close>

text \<open>
  The stream is the text written to it so far; \<open>put\<close> is \<open>operator<<\<close> of the element
  type. The loop runs an iterator from \<open>cbegin()\<close> to \<open>cend()\<close>: the list is the part of
  the container from the iterator on, so that \<open>iter != vec.cend()\<close> is a list with a
  head, \<open>*iter\<close> is the head, and \<open>iter + 1 != vec.cend()\<close> says that the tail is not
  empty.
\<close>

fun put_elems :: "('a \<Rightarrow> string) \<Rightarrow> 'a list \<Rightarrow> string \<Rightarrow> string" where
  "put_elems put [] os = os"
| "put_elems put (x # rest) os =
     put_elems put rest (let os1 = os @ put x in if rest \<noteq> [] then os1 @ '', '' else os1)"

definition operator_shl :: "('a \<Rightarrow> string) \<Rightarrow> string \<Rightarrow> 'a Vec \<Rightarrow> string" where
  "operator_shl put os vec = put_elems put (elems (self vec)) (os @ ''['') @ '']''"

text \<open>
  The rendering as the specification words it, for the comparison with \<open>operator<<\<close>:
  the rendered elements with \<open>'', ''\<close> between two consecutive ones and nothing after the
  last, between brackets.
\<close>

fun spec_separated :: "string list \<Rightarrow> string" where
  "spec_separated [] = []"
| "spec_separated [e] = e"
| "spec_separated (e # e' # es) = e @ '', '' @ spec_separated (e' # es)"

definition spec_rendering :: "string list \<Rightarrow> string" where
  "spec_rendering es = ''['' @ spec_separated es @ '']''"

section \<open>\<open>swap\<close>\<close>

text \<open>
  The body of \<open>swap(Vec& other)\<close> is \<open>self.swap(other)\<close>: it passes the wrapper
  \<open>other\<close>, a \<open>Vec<T>\<close>, to \<open>std::vector<T>::swap\<close>, whose parameter is a
  \<open>std::vector<T>&\<close>. \<open>Vec<T>\<close> has no base class and no conversion to the wrapped
  type, so the call has no viable function and the member cannot be instantiated.
  The embedding meets the same type error (an exchange of two \<open>'a vector\<close> applied to
  \<open>self v\<close> and an \<open>'a Vec\<close>), so \<open>swap\<close> has no definition here.
\<close>

section \<open>Observers\<close>

text \<open>
  C10. For every container, \<open>is_empty()\<close> returns true if and only if \<open>size()\<close>
  equals 0.
\<close>

theorem is_empty_iff_size_zero: "is_empty v = (size_Vec v = 0)"
  by (simp add: is_empty_def size_Vec_def vector_empty_def vector_size_def split: list.split)

theorem is_empty_iff_size_zero_witness:
  "is_empty (of_n 0 (7::int)) \<and> size_Vec (of_n 0 (7::int)) = 0
   \<and> \<not> is_empty (of_n 2 (7::int)) \<and> size_Vec (of_n 2 (7::int)) = 2"
  using is_empty_iff_size_zero [of "of_n 0 (7::int)"] is_empty_iff_size_zero [of "of_n 2 (7::int)"]
  by (simp add: size_Vec_def vector_size_def of_n_def vector_fill_def Vec_default_def)

section \<open>Indexed access\<close>

text \<open>
  C1. For every container and every index \<open>i < size\<close>, \<open>at(i)\<close> and \<open>operator[](i)\<close>
  return the same element, the one at position \<open>i\<close>, and do not raise; for every
  \<open>i \<ge> size\<close>, the boundary \<open>i = size\<close> included, both raise the index error
  (the class \<open>error::IndexOutOfBounds\<close>, the spec's IndexOutOfRange). Neither call
  changes the container.
\<close>

theorem at_operator_index_contract:
  "(i < size_Vec v \<longrightarrow>
      at v i = (Inr (elems (self v) ! i), v) \<and> operator_index v i = (Inr (elems (self v) ! i), v))
   \<and> (size_Vec v \<le> i \<longrightarrow>
      at v i = (Inl IndexOutOfBounds, v) \<and> operator_index v i = (Inl IndexOutOfBounds, v))
   \<and> at v (size_Vec v) = (Inl IndexOutOfBounds, v)
   \<and> operator_index v (size_Vec v) = (Inl IndexOutOfBounds, v)"
  by (simp add: at_def operator_index_def size_Vec_def vector_at_def)

theorem at_operator_index_contract_witness:
  "at (from_list [10, 20, 30::int]) 1 = (Inr 20, from_list [10, 20, 30])
   \<and> operator_index (from_list [10, 20, 30::int]) 1 = (Inr 20, from_list [10, 20, 30])
   \<and> at (from_list [10, 20, 30::int]) 3 = (Inl IndexOutOfBounds, from_list [10, 20, 30])
   \<and> operator_index (from_list [10, 20, 30::int]) 3 = (Inl IndexOutOfBounds, from_list [10, 20, 30])
   \<and> at (from_list [10, 20, 30::int]) 4 = (Inl IndexOutOfBounds, from_list [10, 20, 30])"
  using at_operator_index_contract [of 1 "from_list [10, 20, 30::int]"]
    at_operator_index_contract [of 3 "from_list [10, 20, 30::int]"]
    at_operator_index_contract [of 4 "from_list [10, 20, 30::int]"]
  by (simp add: size_Vec_def vector_size_def from_list_def vector_list_def)

section \<open>Peeking and popping\<close>

lemma vector_front_nth:
  "elems s \<noteq> [] \<Longrightarrow> vector_front s = Inr (elems s ! 0)"
  by (cases "elems s") (simp_all add: vector_front_def)

lemma vector_back_nth:
  "elems s \<noteq> [] \<Longrightarrow> vector_back s = Inr (elems s ! (length (elems s) - 1))"
  by (cases "elems s") (simp_all add: vector_back_def last_conv_nth)

lemma vector_empty_iff: "vector_empty s = (elems s = [])"
  by (simp add: vector_empty_def split: list.split)

text \<open>
  C3. \<open>peek_front()\<close> and \<open>peek_back()\<close> raise \<open>NoSuchElement\<close> when the container is
  empty and only then; on a container that is not empty they return the first element
  (index 0) and the last one (index \<open>size - 1\<close>). In both cases the container, and so
  its size, is what it was.
\<close>

theorem peek_contract:
  "(is_empty v \<longrightarrow>
      peek_front v = (Inl (NoSuchElement ''vector is empty.''), v)
      \<and> peek_back v = (Inl (NoSuchElement ''vector is empty.''), v))
   \<and> (\<not> is_empty v \<longrightarrow>
      peek_front v = (Inr (elems (self v) ! 0), v)
      \<and> peek_back v = (Inr (elems (self v) ! (size_Vec v - 1)), v))
   \<and> size_Vec (snd (peek_front v)) = size_Vec v
   \<and> size_Vec (snd (peek_back v)) = size_Vec v"
  by (simp add: peek_front_def peek_back_def is_empty_def size_Vec_def vector_size_def
      vector_empty_iff vector_front_nth vector_back_nth)

theorem peek_contract_witness:
  "peek_front (from_list ([]::int list)) = (Inl (NoSuchElement ''vector is empty.''), from_list [])
   \<and> peek_back (from_list ([]::int list)) = (Inl (NoSuchElement ''vector is empty.''), from_list [])
   \<and> peek_front (from_list [10, 20, 30::int]) = (Inr 10, from_list [10, 20, 30])
   \<and> peek_back (from_list [10, 20, 30::int]) = (Inr 30, from_list [10, 20, 30])"
  using peek_contract [of "from_list ([]::int list)"] peek_contract [of "from_list [10, 20, 30::int]"]
  by (simp add: is_empty_def vector_empty_iff size_Vec_def vector_size_def from_list_def
      vector_list_def)

text \<open>
  C4. \<open>pop_back()\<close> never raises. On an empty container it returns no value and the
  container stays as it is, of size 0. On a container of size \<open>n > 0\<close> it returns the
  last element, by value, and leaves the first \<open>n - 1\<close> elements: the size is \<open>n - 1\<close>.
\<close>

theorem pop_back_contract:
  "(size_Vec v = 0 \<longrightarrow> pop_back v = (Inr None, v))
   \<and> (0 < size_Vec v \<longrightarrow>
        fst (pop_back v) = Inr (Some (elems (self v) ! (size_Vec v - 1)))
        \<and> size_Vec (snd (pop_back v)) = size_Vec v - 1
        \<and> elems (self (snd (pop_back v))) = take (size_Vec v - 1) (elems (self v)))
   \<and> (\<exists>r. fst (pop_back v) = Inr r)"
proof (cases "elems (self v)")
  case Nil
  then show ?thesis
    by (simp add: pop_back_def is_empty_def vector_empty_iff size_Vec_def vector_size_def)
next
  case (Cons x xs)
  then have ne: "elems (self v) \<noteq> []"
    by simp
  have "pop_back v =
      (Inr (Some (elems (self v) ! (length (elems (self v)) - 1))),
       v\<lparr>self := (self v)\<lparr>elems := butlast (elems (self v))\<rparr>\<rparr>)"
    using Cons vector_back_nth [OF ne]
    by (simp add: pop_back_def is_empty_def vector_empty_iff peek_back_def vector_pop_back_def)
  then show ?thesis
    using ne by (simp add: size_Vec_def vector_size_def butlast_conv_take)
qed

theorem pop_back_contract_witness:
  "pop_back (from_list ([]::int list)) = (Inr None, from_list [])
   \<and> size_Vec (from_list ([]::int list)) = 0
   \<and> fst (pop_back (from_list [10, 20, 30::int])) = Inr (Some 30)
   \<and> size_Vec (snd (pop_back (from_list [10, 20, 30::int]))) = 2
   \<and> elems (self (snd (pop_back (from_list [10, 20, 30::int])))) = [10, 20]"
  using pop_back_contract [of "from_list ([]::int list)"]
    pop_back_contract [of "from_list [10, 20, 30::int]"]
  by (simp add: size_Vec_def vector_size_def from_list_def vector_list_def)

section \<open>Clearing\<close>

text \<open>
  C8. For every container, after \<open>clear()\<close> the size is 0 and the capacity is the one
  it had before the call; the call does not raise.
\<close>

theorem clear_size_cap:
  "size_Vec (snd (clear v)) = 0 \<and> cap (snd (clear v)) = cap v \<and> fst (clear v) = Inr ()"
  by (simp add: clear_def size_Vec_def cap_def vector_size_def vector_capacity_def vector_clear_def)

theorem clear_size_cap_witness:
  "size_Vec (snd (clear \<lparr>self = \<lparr>elems = [10, 20, 30::int], allocated = 8\<rparr>\<rparr>)) = 0
   \<and> cap (snd (clear \<lparr>self = \<lparr>elems = [10, 20, 30::int], allocated = 8\<rparr>\<rparr>)) = 8
   \<and> cap \<lparr>self = \<lparr>elems = [10, 20, 30::int], allocated = 8\<rparr>\<rparr> = 8"
  using clear_size_cap [of "\<lparr>self = \<lparr>elems = [10, 20, 30::int], allocated = 8\<rparr>\<rparr>"]
  by (simp add: cap_def vector_capacity_def)

section \<open>Construction from a range\<close>

lemma elems_fold_emplace_back:
  "elems (fold (\<lambda>x s. vector_emplace_back s (construct x)) src s0) = elems s0 @ map construct src"
  by (induction src arbitrary: s0) (simp_all add: vector_emplace_back_def)

lemma elems_vector_range: "elems (vector_range multi_pass construct src) = map construct src"
  by (simp add: vector_range_def elems_fold_emplace_back vector_default_def)

text \<open>
  C7, as the code has it. For every traversal range of length \<open>k\<close> whose iterator type
  satisfies \<open>IsValidIterator\<close>, \<open>from(begin, end)\<close> yields a container of size \<open>k\<close> whose
  element at each position is the \<open>T\<close> constructed from the source element at that
  position, in the same order; where the source elements are of type \<open>T\<close> and are
  copied, the elements of the container equal the source elements.
\<close>

theorem from_range_elements:
  assumes "IsValidIterator it"
  shows "(\<exists>v. from_range it construct src = Some v
            \<and> size_Vec v = length src
            \<and> elems (self v) = map construct src)
         \<and> (\<exists>v. from_range it (\<lambda>x. x) src = Some v
            \<and> size_Vec v = length src
            \<and> elems (self v) = src)"
  using assms
  by (simp add: from_range_def Vec_default_def elems_vector_range size_Vec_def vector_size_def)

theorem from_range_elements_witness:
  "IsValidIterator
     \<lparr>is_cpp17_input_iterator = True, is_cpp17_forward_iterator = True, is_constructible = True\<rparr>
   \<and> from_range
     \<lparr>is_cpp17_input_iterator = True, is_cpp17_forward_iterator = True, is_constructible = True\<rparr>
     (\<lambda>x. x) [1, 2, 3, 4, 5::int] = Some (from_list [1, 2, 3, 4, 5])
   \<and> IsValidIterator
     \<lparr>is_cpp17_input_iterator = True, is_cpp17_forward_iterator = False, is_constructible = True\<rparr>
   \<and> from_range
     \<lparr>is_cpp17_input_iterator = True, is_cpp17_forward_iterator = False, is_constructible = True\<rparr>
     (\<lambda>x. x) [1, 2, 3::int] = Some \<lparr>self = \<lparr>elems = [1, 2, 3], allocated = 4\<rparr>\<rparr>"
  using from_range_elements
    [of "\<lparr>is_cpp17_input_iterator = True, is_cpp17_forward_iterator = True, is_constructible = True\<rparr>"
        "\<lambda>x. x" "[1, 2, 3, 4, 5::int]"]
    from_range_elements
    [of "\<lparr>is_cpp17_input_iterator = True, is_cpp17_forward_iterator = False, is_constructible = True\<rparr>"
        "\<lambda>x. x" "[1, 2, 3::int]"]
  by (simp add: IsValidIterator_def IsForwardIterator_def IsInputIterator_def from_range_def
      Vec_default_def vector_range_def vector_emplace_back_def vector_default_def from_list_def
      vector_list_def)

text \<open>
  The elements need not equal the source elements: \<open>is_constructible\<close> admits a source
  whose elements convert to \<open>T\<close>. \<open>Vec<int>::from\<close> over a range of \<open>long long\<close> (64
  bits, read through a pointer, a multi-pass iterator) converts each element to \<open>int\<close>
  (32 bits), which keeps the low 32 bits: the source \<open>4294967297, -1\<close> becomes the
  container \<open>1, -1\<close>.
\<close>

lemma ucast_minus_one_64_32: "ucast (- 1 :: 64 word) = (- 1 :: 32 word)"
  by (rule bit_word_eqI) (simp add: bit_simps)

theorem from_range_converting_counterexample:
  "IsValidIterator
     \<lparr>is_cpp17_input_iterator = True, is_cpp17_forward_iterator = True, is_constructible = True\<rparr>
   \<and> from_range
     \<lparr>is_cpp17_input_iterator = True, is_cpp17_forward_iterator = True, is_constructible = True\<rparr>
     ucast [4294967297, - 1 :: 64 word] = Some (from_list [1, - 1 :: 32 word])
   \<and> map sint [4294967297, - 1 :: 64 word] = [4294967297, - 1]
   \<and> map sint [1, - 1 :: 32 word] = [1, - 1]
   \<and> map sint [1, - 1 :: 32 word] \<noteq> map sint [4294967297, - 1 :: 64 word]"
  by (simp add: IsValidIterator_def IsForwardIterator_def from_range_def Vec_default_def
      vector_range_def from_list_def vector_list_def ucast_minus_one_64_32)

section \<open>Applying a pattern\<close>






text \<open>
  C6. A container of 4 elements, each equal to 1, to which \<open>with\<close> applies the pattern
  \<open>Mult\<close> with the step 5, becomes the container \<open>[1, 5, 25, 125]\<close>, in every integer
  element type.
\<close>

theorem of_with_Mult:
  "with_pattern True (Mult 5) (of_n 4 (1::'a::ring_1)) =
     Some (Inr (from_list [1, 5, 25, 125]), from_list [1, 5, 25, 125])"
  by (simp add: with_pattern_def Vec_copy_def vector_copy_def of_n_def Vec_default_def
      vector_fill_def from_list_def vector_list_def with_loop.simps vector_size_def vector_index_def
      vector_index_assign_def Mult_def numeral_eq_Suc)

text \<open>For \<open>Vec<int>\<close>, a 32-bit \<open>int\<close> read as a signed number.\<close>

theorem of_with_Mult_witness:
  "map sint (elems (self (snd (the (with_pattern True (Mult 5) (of_n 4 (1::32 word))))))) =
     [1, 5, 25, 125]"
  using of_with_Mult [where ?'a = "32 word"]
  by (simp add: from_list_def vector_list_def)

section \<open>Rendering\<close>

lemma put_elems_separated:
  "put_elems put xs os = os @ spec_separated (map put xs)"
proof (induction xs arbitrary: os)
  case Nil
  show ?case by simp
next
  case (Cons x rest)
  have "put_elems put (x # rest) os =
      (if rest \<noteq> [] then os @ put x @ '', '' else os @ put x) @ spec_separated (map put rest)"
    by (simp add: Cons.IH Let_def)
  then show ?case
    by (cases rest) simp_all
qed

text \<open>
  C9. For every container with the elements \<open>e0, ..., eN-1\<close>, writing it to a stream
  appends \<open>[e0, e1, ..., eN-1]\<close>, with \<open>'', ''\<close> between consecutive elements and no
  separator after the last; an empty container is written as \<open>[]\<close>.
\<close>

theorem operator_shl_rendering:
  "operator_shl put os vec = os @ spec_rendering (map put (elems (self vec)))
   \<and> operator_shl put os Vec_default = os @ ''[]''"
  by (simp add: operator_shl_def put_elems_separated spec_rendering_def Vec_default_def
      vector_default_def)

theorem operator_shl_rendering_witness:
  "operator_shl to_string [] (from_list [1, 20, 300]) = ''[1, 20, 300]''
   \<and> operator_shl to_string [] (from_list [7]) = ''[7]''
   \<and> operator_shl to_string [] (from_list []) = ''[]''"
  using operator_shl_rendering [of to_string "[]" "from_list [1, 20, 300]"]
    operator_shl_rendering [of to_string "[]" "from_list [7]"]
    operator_shl_rendering [of to_string "[]" "from_list []"]
  by (simp add: spec_rendering_def from_list_def vector_list_def to_string.simps)

end
